theory Spec2Isabelle
  imports Main "HOL-Library.Sublist"
begin

section \<open>Python string primitives used by the scripts\<close>

text \<open>
  The scripts \<^verbatim>\<open>iconjs.py\<close>, \<^verbatim>\<open>temprename.py\<close> and \<^verbatim>\<open>src/iconFormating.py\<close> work on
  Python strings with \<^verbatim>\<open>find\<close>, \<^verbatim>\<open>rfind\<close>, slicing, \<^verbatim>\<open>replace\<close>, \<^verbatim>\<open>upper\<close> and
  \<^verbatim>\<open>endswith\<close>.  A Python string is modelled as a \<^typ>\<open>string\<close>, one \<^typ>\<open>char\<close> per
  character; the model is exact for ASCII text, which is what the icon file names and
  the markers the scripts search for consist of.
\<close>

text \<open>
  \<^verbatim>\<open>s.find(sub)\<close>: the lowest index at which \<open>sub\<close> starts in \<open>s\<close>, or \<open>-1\<close>.
  \<open>find_opt\<close> scans from the left; \<open>py_find\<close> turns the absent case into Python's \<open>-1\<close>.
\<close>

primrec find_opt :: "string \<Rightarrow> string \<Rightarrow> nat option" where
  "find_opt [] sub = (if sub = [] then Some 0 else None)"
| "find_opt (x # xs) sub =
     (if prefix sub (x # xs) then Some 0 else map_option Suc (find_opt xs sub))"

definition py_find :: "string \<Rightarrow> string \<Rightarrow> int" where
  "py_find s sub = (case find_opt s sub of None \<Rightarrow> - 1 | Some i \<Rightarrow> int i)"

text \<open>
  \<^verbatim>\<open>s.rfind(sub)\<close>: the highest index at which \<open>sub\<close> starts in \<open>s\<close>, or \<open>-1\<close>.
  An occurrence further right wins over one at the current position.
\<close>

primrec rfind_opt :: "string \<Rightarrow> string \<Rightarrow> nat option" where
  "rfind_opt [] sub = (if sub = [] then Some 0 else None)"
| "rfind_opt (x # xs) sub =
     (case rfind_opt xs sub of
        Some i \<Rightarrow> Some (Suc i)
      | None \<Rightarrow> if prefix sub (x # xs) then Some 0 else None)"

definition py_rfind :: "string \<Rightarrow> string \<Rightarrow> int" where
  "py_rfind s sub = (case rfind_opt s sub of None \<Rightarrow> - 1 | Some i \<Rightarrow> int i)"

text \<open>
  Slices \<^verbatim>\<open>s[:k]\<close> and \<^verbatim>\<open>s[k:]\<close>.  A negative bound counts from the end of the string
  and every bound is clamped to \<open>0 .. len(s)\<close>; a slice never raises.
\<close>

definition slice_to :: "string \<Rightarrow> int \<Rightarrow> string" where
  "slice_to s k = (if k < 0 then take (nat (int (length s) + k)) s else take (nat k) s)"

definition slice_from :: "string \<Rightarrow> int \<Rightarrow> string" where
  "slice_from s k = (if k < 0 then drop (nat (int (length s) + k)) s else drop (nat k) s)"

text \<open>
  \<^verbatim>\<open>s.replace(old, new)\<close>: every non-overlapping occurrence of \<open>old\<close>, found from the
  left, is replaced by \<open>new\<close>.  For an empty \<open>old\<close> Python inserts \<open>new\<close> before every
  character and at the end.
\<close>

function py_replace :: "string \<Rightarrow> string \<Rightarrow> string \<Rightarrow> string" where
  "py_replace [] old new = (if old = [] then new else [])"
| "py_replace (x # xs) old new =
     (if old = [] then new @ x # py_replace xs old new
      else if prefix old (x # xs) then new @ py_replace (drop (length old) (x # xs)) old new
      else x # py_replace xs old new)"
  by pat_completeness auto
termination
  by (relation "measure (\<lambda>(s, old, new). length s)") auto

text \<open>
  \<^verbatim>\<open>s.upper()\<close> on ASCII text: the letters \<open>a .. z\<close> become \<open>A .. Z\<close>, every other
  ASCII character is kept.  Python maps the characters outside ASCII by the Unicode
  tables, which are not modelled: this model keeps them, and what is stated below
  about upper case is stated for ASCII text.
\<close>

definition upper_char :: "char \<Rightarrow> char" where
  "upper_char c =
     (case map_of (zip ''abcdefghijklmnopqrstuvwxyz'' ''ABCDEFGHIJKLMNOPQRSTUVWXYZ'') c of
        None \<Rightarrow> c
      | Some u \<Rightarrow> u)"

definition py_upper :: "string \<Rightarrow> string" where
  "py_upper s = map upper_char s"

text \<open>\<^verbatim>\<open>s.endswith(suf)\<close>.\<close>

definition py_endswith :: "string \<Rightarrow> string \<Rightarrow> bool" where
  "py_endswith s suf = suffix suf s"

section \<open>The fill stripper\<close>

text \<open>
  \<^verbatim>\<open>src/iconFormating.py\<close>, lines 41 to 45 (the guarded stripper):
  \<^verbatim>\<open>
    startFill = icon.find('fill="')
    if startFill != -1:
        # Handle the second quote correctly
        endFill = icon[startFill + len('fill="'):].find('"') + startFill + len('fill="') + 1
        icon = icon[:startFill] + icon[endFill:]
  \<close>
\<close>

definition iconFormating_strip :: "string \<Rightarrow> string" where
  \<open>iconFormating_strip icon =
     (let startFill = py_find icon ''fill="'' in
      if startFill \<noteq> - 1 then
        let endFill = py_find (slice_from icon (startFill + int (length ''fill="''))) ''"''
                        + startFill + int (length ''fill="'') + 1
        in slice_to icon startFill @ slice_from icon endFill
      else icon)\<close>

text \<open>
  \<^verbatim>\<open>iconjs.py\<close>, lines 16 to 18 (the unguarded stripper):
  \<^verbatim>\<open>
    startFill = icon.find('fill="')
    endFill = icon[startFill:].find('"') + startFill + len('fill="')
    icon = icon[:startFill] + icon[endFill+1:]
  \<close>
\<close>

definition iconjs_strip :: "string \<Rightarrow> string" where
  \<open>iconjs_strip icon =
     (let startFill = py_find icon ''fill="'';
          endFill = py_find (slice_from icon startFill) ''"'' + startFill + int (length ''fill="'')
      in slice_to icon startFill @ slice_from icon (endFill + 1))\<close>

section \<open>The filename normalizer\<close>

text \<open>
  The loop of \<^verbatim>\<open>temprename.py\<close>, lines 9 to 12 (the same lines stand in
  \<^verbatim>\<open>src/iconFormating.py\<close>, 20 to 24):
  \<^verbatim>\<open>
    for file in files:
        if file.find("dp_") == -1: continue
        newName = file[:file[:file.find("dp_")].rfind("_")] + file[file.rfind("."):]
        shutil.move(dir+file, dir+newName)
  \<close>
  \<open>newName\<close> is the expression of the third line.
\<close>

definition newName :: "string \<Rightarrow> string" where
  "newName file =
     slice_to file (py_rfind (slice_to file (py_find file ''dp_'')) ''_'')
       @ slice_from file (py_rfind file ''.'')"

text \<open>
  The state of the directory, as far as \<^verbatim>\<open>shutil.move\<close> looks at it: \<open>regular\<close> maps the
  name of each regular file of the directory to its content (these are the names the
  scripts list with \<^verbatim>\<open>isfile\<close>), \<open>subdirs\<close> maps the name of each subdirectory to the
  names of the entries inside it, and \<open>parent\<close> holds the names of the entries of the
  parent directory.  Joined to the path of the directory, the name \<^verbatim>\<open>.\<close> denotes the
  directory itself and \<^verbatim>\<open>..\<close> its parent.
\<close>

record directory =
  regular :: "string \<rightharpoonup> string"
  subdirs :: "string \<rightharpoonup> string set"
  parent :: "string set"

definition isdir :: "directory \<Rightarrow> string \<Rightarrow> bool" where
  "isdir d name = (name = ''.'' \<or> name = ''..'' \<or> name \<in> dom (subdirs d))"

definition entries_in :: "directory \<Rightarrow> string \<Rightarrow> string set" where
  "entries_in d name =
     (if name = ''.'' then dom (regular d) \<union> dom (subdirs d)
      else if name = ''..'' then parent d
      else (case subdirs d name of None \<Rightarrow> {} | Some names \<Rightarrow> names))"

definition move_into :: "directory \<Rightarrow> string \<Rightarrow> string \<Rightarrow> directory" where
  "move_into d src dst =
     (if dst = ''..'' then d\<lparr>regular := (regular d)(src := None), parent := insert src (parent d)\<rparr>
      else d\<lparr>regular := (regular d)(src := None),
             subdirs := (subdirs d)(dst \<mapsto> insert src (entries_in d dst))\<rparr>)"

text \<open>
  \<^verbatim>\<open>shutil.move(dir+src, dir+dst)\<close> for a source that was listed as a regular file.
  When the destination is a directory, the file is moved into it under its own name
  (\<open>move_into\<close>), and \<^verbatim>\<open>shutil.Error\<close> is raised when that directory already has an entry
  of this name; for the destination \<^verbatim>\<open>.\<close> that entry is the source itself.  Otherwise the move
  is \<^verbatim>\<open>os.rename\<close>, which replaces a regular file that has the destination name.  A
  missing source raises \<^verbatim>\<open>FileNotFoundError\<close>.  A failed move leaves the directory as it
  was.  Failures of the file system itself (permissions, devices) are not modelled.
\<close>

datatype error = FileNotFoundError | ShutilError

definition shutil_move :: "directory \<Rightarrow> string \<Rightarrow> string \<Rightarrow> error + directory" where
  "shutil_move d src dst =
     (if isdir d dst then
        (if src \<in> entries_in d dst then Inl ShutilError
         else (case regular d src of
                 None \<Rightarrow> Inl FileNotFoundError
               | Some content \<Rightarrow> Inr (move_into d src dst)))
      else
        (case regular d src of
           None \<Rightarrow> Inl FileNotFoundError
         | Some content \<Rightarrow> Inr (d\<lparr>regular := (regular d)(src := None, dst \<mapsto> content)\<rparr>)))"

text \<open>The body of the loop for one file: the guard, then the move.\<close>

definition rename_step :: "directory \<Rightarrow> string \<Rightarrow> error + directory" where
  "rename_step d file =
     (if py_find file ''dp_'' = - 1 then Inr d
      else shutil_move d file (newName file))"

text \<open>
  The loop.  An exception ends the script; the result is the exception, if one was
  raised, and the directory as the loop left it.
\<close>

fun rename_loop :: "directory \<Rightarrow> string list \<Rightarrow> error option \<times> directory" where
  "rename_loop d [] = (None, d)"
| "rename_loop d (file # files) =
     (case rename_step d file of
        Inl e \<Rightarrow> (Some e, d)
      | Inr d' \<Rightarrow> rename_loop d' files)"

section \<open>The module emitter\<close>

text \<open>
  The constant name, \<^verbatim>\<open>iconjs.py\<close> line 14 and \<^verbatim>\<open>src/iconFormating.py\<close> line 38:
  \<^verbatim>\<open>
    name = file[:file.rfind(".")].replace("-", "_").upper() + "_SVG"
  \<close>
\<close>

definition constant_name :: "string \<Rightarrow> string" where
  "constant_name file =
     py_upper (py_replace (slice_to file (py_rfind file ''.'')) ''-'' ''_'') @ ''_SVG''"

text \<open>
  An enumerated file is its name together with the text read from it.  The scripts keep
  the names that end in \<^verbatim>\<open>.svg\<close>, in the order in which the directory lists them:
  \<^verbatim>\<open>
    files = [f for f in listdir(dir) if isfile(join(dir, f)) and f.endswith(".svg")]
  \<close>
\<close>

type_synonym entry = "string \<times> string"

definition svg_files :: "entry list \<Rightarrow> entry list" where
  "svg_files listing = filter (\<lambda>(file, icon). py_endswith file ''.svg'') listing"

text \<open>
  The end of the loop body, \<^verbatim>\<open>iconjs.py\<close> lines 22 to 25 and \<^verbatim>\<open>src/iconFormating.py\<close>
  lines 48 to 51, on the two accumulators \<open>icons\<close> and \<open>iconNames\<close>:
  \<^verbatim>\<open>
    icons += "const " + name + " = `" + icon + "`\n"
    if iconNames != "{":
        iconNames += ","
    iconNames += " " + name + " "
  \<close>
\<close>

definition emit :: "string \<Rightarrow> string \<Rightarrow> string \<times> string \<Rightarrow> string \<times> string" where
  "emit name icon acc =
     (case acc of (icons, iconNames) \<Rightarrow>
        let icons = icons @ ''const '' @ name @ '' = `'' @ icon @ ''`\<newline>'';
            iconNames = (if iconNames \<noteq> ''{'' then iconNames @ '','' else iconNames);
            iconNames = iconNames @ '' '' @ name @ '' ''
        in (icons, iconNames))"

text \<open>
  The loop over the files, \<^verbatim>\<open>iconjs.py\<close> lines 11 to 25.  The fill stripper of the loop
  body is the parameter \<open>strip\<close>: the same loop stands in \<^verbatim>\<open>src/iconFormating.py\<close>, lines
  33 to 51, around the guarded stripper.
\<close>

fun module_loop :: "(string \<Rightarrow> string) \<Rightarrow> entry list \<Rightarrow> string \<times> string \<Rightarrow> string \<times> string" where
  "module_loop strip [] acc = acc"
| "module_loop strip ((file, icon) # files) acc =
     module_loop strip files (emit (constant_name file) (strip icon) acc)"

text \<open>
  The text written to \<^verbatim>\<open>icons.js\<close>.  \<^verbatim>\<open>iconjs.py\<close> line 27 ends it with
  \<^verbatim>\<open>f"\nexport { iconNames }" + "};"\<close>; the braces of the f-string interpolate the
  variable \<open>iconNames\<close>, so the text added is a newline, \<^verbatim>\<open>export \<close>, the accumulated
  names and \<^verbatim>\<open>};\<close>.

  \<^verbatim>\<open>src/iconFormating.py\<close> cannot be run as it stands: it opens with a \<^verbatim>\<open>/** ... */\<close>
  comment block, and the string literal of its last statement (lines 53 and 54) is
  cut by a line break.  Python rejects the file with a syntax error and no text is
  written, so the generated text is that of \<^verbatim>\<open>iconjs.py\<close>.
\<close>

definition iconjs_generate :: "entry list \<Rightarrow> string" where
  "iconjs_generate listing =
     (case module_loop iconjs_strip (svg_files listing) ('''', ''{'') of
        (icons, iconNames) \<Rightarrow> icons @ ''\<newline>export '' @ iconNames @ ''};'')"

section \<open>Reading the generated text\<close>

text \<open>
  The shape of the generated module that the properties below speak about: the
  declaration of one constant, the declarations and the constant names of a list of
  files, and the text of an export list.
\<close>

definition const_declaration :: "string \<Rightarrow> string \<Rightarrow> string" where
  "const_declaration name icon = ''const '' @ name @ '' = `'' @ icon @ ''`\<newline>''"

definition declarations_of :: "(string \<Rightarrow> string) \<Rightarrow> entry list \<Rightarrow> string" where
  "declarations_of strip files =
     concat (map (\<lambda>(file, icon). const_declaration (constant_name file) (strip icon)) files)"

definition names_of :: "entry list \<Rightarrow> string list" where
  "names_of files = map (\<lambda>(file, icon). constant_name file) files"

fun export_list :: "string list \<Rightarrow> string" where
  "export_list [] = []"
| "export_list [name] = '' '' @ name @ '' ''"
| "export_list (name # names) = '' '' @ name @ '' ,'' @ export_list names"

text \<open>
  Reading a text back: its pieces between the occurrences of a separator, its lines,
  and the entries of the text of an export list, which are its pieces between the
  commas (an empty list has no entry).
\<close>

primrec split_on :: "char \<Rightarrow> string \<Rightarrow> string list" where
  "split_on sep [] = [[]]"
| "split_on sep (c # cs) =
     (if c = sep then [] # split_on sep cs
      else (case split_on sep cs of
              [] \<Rightarrow> [[c]]
            | l # ls \<Rightarrow> (c # l) # ls))"

definition lines_of :: "string \<Rightarrow> string list" where
  "lines_of text = split_on CHR ''\<newline>'' text"


text \<open>
  ASCII text, on which the model of \<^verbatim>\<open>upper\<close> is exact, and the capital of an ASCII
  character by its code: the letters \<open>a .. z\<close> have the codes 97 to 122 and their
  capitals the codes 65 to 90.
\<close>

definition is_ascii :: "string \<Rightarrow> bool" where
  "is_ascii s = list_all (\<lambda>c. (of_char c :: nat) < 128) s"

definition capital :: "char \<Rightarrow> char" where
  "capital c =
     (if 97 \<le> (of_char c :: nat) \<and> (of_char c :: nat) \<le> 122
      then char_of ((of_char c :: nat) - 32) else c)"

section \<open>Facts about the primitives\<close>

lemma find_opt_absent: "\<not> sublist sub s \<Longrightarrow> find_opt s sub = None"
proof (induction s)
  case Nil
  then show ?case by auto
next
  case (Cons x xs)
  then show ?case by (auto simp: sublist_Cons_right)
qed

lemma py_find_absent: "\<not> sublist sub s \<Longrightarrow> py_find s sub = - 1"
  by (simp add: py_find_def find_opt_absent)

lemma prefix_append_short: "prefix xs (ys @ zs) \<Longrightarrow> length xs \<le> length ys \<Longrightarrow> prefix xs ys"
  by (auto simp: prefix_append)

lemma prefix_into_butlast:
  assumes "sub \<noteq> []" and "prefix sub (y # a @ sub @ b)"
  shows "prefix sub (y # a @ butlast sub)"
proof -
  have len: "length sub \<le> length (y # a @ butlast sub)"
    by simp
  have "sub @ b = butlast sub @ last sub # b"
    using assms(1) by (metis append_butlast_last_id append_Cons append_Nil append_assoc)
  then have "y # a @ sub @ b = (y # a @ butlast sub) @ (last sub # b)"
    by simp
  then have "prefix sub ((y # a @ butlast sub) @ (last sub # b))"
    using assms(2) by (simp only:)
  then show ?thesis
    using len by (rule prefix_append_short)
qed

lemma find_opt_first:
  "sub \<noteq> [] \<Longrightarrow> \<not> sublist sub (a @ butlast sub) \<Longrightarrow> find_opt (a @ sub @ b) sub = Some (length a)"
proof (induction a)
  case Nil
  then obtain x xs where "sub @ b = x # xs"
    by (cases sub) auto
  moreover have "prefix sub (sub @ b)" by simp
  ultimately show ?case by simp
next
  case (Cons y a)
  have no_pre: "\<not> prefix sub (y # a @ sub @ b)"
  proof
    assume "prefix sub (y # a @ sub @ b)"
    then have "prefix sub (y # a @ butlast sub)"
      using Cons.prems(1) by (rule prefix_into_butlast[rotated])
    then show False
      using Cons.prems(2) by auto
  qed
  have "\<not> sublist sub (a @ butlast sub)"
    using Cons.prems(2) by (auto simp: sublist_Cons_right)
  then have "find_opt (a @ sub @ b) sub = Some (length a)"
    using Cons.IH Cons.prems(1) by simp
  then show ?case
    using no_pre by simp
qed

lemma py_find_first:
  "sub \<noteq> [] \<Longrightarrow> \<not> sublist sub (a @ butlast sub) \<Longrightarrow> py_find (a @ sub @ b) sub = int (length a)"
  by (simp add: py_find_def find_opt_first)

lemma sublist_single: "sublist [c] s \<longleftrightarrow> c \<in> set s"
  by (induction s) (auto simp: sublist_Cons_right)

lemma py_find_char_absent: "c \<notin> set s \<Longrightarrow> py_find s [c] = - 1"
  by (simp add: py_find_absent sublist_single)

lemma py_find_char_first: "c \<notin> set a \<Longrightarrow> py_find (a @ c # b) [c] = int (length a)"
  using py_find_first[of "[c]" a b] by (simp add: sublist_single)

lemma slice_to_nat: "slice_to s (int n) = take n s"
  by (simp add: slice_to_def)

lemma slice_from_nat: "slice_from s (int n) = drop n s"
  by (simp add: slice_from_def)

lemma drop_app: "n = length xs \<Longrightarrow> drop n (xs @ ys) = ys"
  by simp

lemma take_app: "n = length xs \<Longrightarrow> take n (xs @ ys) = xs"
  by simp

section \<open>The guarded fill stripper\<close>

text \<open>
  When \<^verbatim>\<open>fill="\<close> does not occur in the text, the stripper of
  \<^verbatim>\<open>src/iconFormating.py\<close> returns the text as it is.
\<close>

lemma iconFormating_strip_absent:
  \<open>\<not> sublist ''fill="'' icon \<Longrightarrow> iconFormating_strip icon = icon\<close>
  by (simp add: iconFormating_strip_def py_find_absent)

text \<open>
  When the first \<^verbatim>\<open>fill="\<close> of the text is followed by a value \<open>X\<close> without a double
  quote and by the closing quote, the stripper of \<^verbatim>\<open>src/iconFormating.py\<close> removes the
  key, the equals sign and the quoted value, and nothing else.
\<close>

lemma iconFormating_strip_attribute:
  assumes first: \<open>\<not> sublist ''fill="'' (a @ ''fill='')\<close>
    and noq: \<open>CHR ''"'' \<notin> set X\<close>
  shows \<open>iconFormating_strip (a @ ''fill="'' @ X @ ''"'' @ b) = a @ b\<close>
proof -
  let ?icon = \<open>a @ ''fill="'' @ X @ ''"'' @ b\<close>
  have start: \<open>py_find ?icon ''fill="'' = int (length a)\<close>
    using py_find_first[of \<open>''fill="''\<close> a \<open>X @ ''"'' @ b\<close>] first by simp
  have tail: \<open>slice_from ?icon (int (length a) + int (length ''fill="'')) = X @ ''"'' @ b\<close>
    using slice_from_nat[of ?icon "length a + 6"]
      drop_app[of "length a + 6" \<open>a @ ''fill="''\<close> \<open>X @ ''"'' @ b\<close>] by simp
  have close: \<open>py_find (X @ ''"'' @ b) ''"'' = int (length X)\<close>
    using py_find_char_first[OF noq, of b] by simp
  have e: \<open>int (length X) + int (length a) + int (length ''fill="'') + 1
             = int (length a + 6 + length X + 1)\<close>
    by simp
  have rest: \<open>slice_from ?icon (int (length a + 6 + length X + 1)) = b\<close>
    unfolding slice_from_nat
    using drop_app[of "length a + 6 + length X + 1" \<open>a @ ''fill="'' @ X @ ''"''\<close> b] by simp
  have front: \<open>slice_to ?icon (int (length a)) = a\<close>
    unfolding slice_to_nat by simp
  show ?thesis
    unfolding iconFormating_strip_def Let_def start tail close e rest front by simp
qed

text \<open>
  C10.  In the guarded stripper of \<^verbatim>\<open>src/iconFormating.py\<close>: when the text is
  \<open>a @ ''fill="'' @ b\<close>, this is the first place where \<^verbatim>\<open>fill="\<close> occurs, and no double
  quote occurs in \<open>b\<close>, the output is \<open>a @ b\<close>: the six characters of \<^verbatim>\<open>fill="\<close> are
  removed and everything after them is kept.
\<close>

theorem iconFormating_strip_unterminated:
  assumes first: \<open>\<not> sublist ''fill="'' (a @ ''fill='')\<close>
    and noq: \<open>CHR ''"'' \<notin> set b\<close>
  shows \<open>iconFormating_strip (a @ ''fill="'' @ b) = a @ b\<close>
proof -
  let ?icon = \<open>a @ ''fill="'' @ b\<close>
  have start: \<open>py_find ?icon ''fill="'' = int (length a)\<close>
    using py_find_first[of \<open>''fill="''\<close> a b] first by simp
  have tail: \<open>slice_from ?icon (int (length a) + int (length ''fill="'')) = b\<close>
    using slice_from_nat[of ?icon "length a + 6"]
      drop_app[of "length a + 6" \<open>a @ ''fill="''\<close> b] by simp
  have close: \<open>py_find b ''"'' = - 1\<close>
    using py_find_char_absent[OF noq] by simp
  have e: \<open>- 1 + int (length a) + int (length ''fill="'') + 1 = int (length a + 6)\<close>
    by simp
  have rest: \<open>slice_from ?icon (int (length a + 6)) = b\<close>
    unfolding slice_from_nat
    using drop_app[of "length a + 6" \<open>a @ ''fill="''\<close> b] by simp
  have front: \<open>slice_to ?icon (int (length a)) = a\<close>
    unfolding slice_to_nat by simp
  show ?thesis
    unfolding iconFormating_strip_def Let_def start tail close e rest front by simp
qed

text \<open>
  The theorem at the text \<^verbatim>\<open><svg fill="#000 d=M0 0/>\<close>, whose only double quote is the
  one that opens the value.
\<close>

theorem iconFormating_strip_unterminated_witness:
  \<open>\<not> sublist ''fill="'' (''<svg '' @ ''fill='')
   \<and> CHR ''"'' \<notin> set ''#000 d=M0 0/>''
   \<and> iconFormating_strip ''<svg fill="#000 d=M0 0/>'' = ''<svg #000 d=M0 0/>''\<close>
proof -
  have first: \<open>\<not> sublist ''fill="'' (''<svg '' @ ''fill='')\<close>
    by (simp add: sublist_Cons_right)
  have noq: \<open>CHR ''"'' \<notin> set ''#000 d=M0 0/>''\<close>
    by simp
  show ?thesis
    using first noq iconFormating_strip_unterminated[OF first noq] by simp
qed

section \<open>The unguarded fill stripper\<close>

text \<open>
  C1.  The text \<^verbatim>\<open><svg d="M1 1"/>\<close> holds no \<^verbatim>\<open>fill="\<close>.  The stripper of \<^verbatim>\<open>iconjs.py\<close>
  has no test of \<open>startFill\<close>: with \<open>startFill = -1\<close> it computes \<open>endFill = 4\<close> and
  returns the text without its last character followed by the text from index 5 on.
  The guarded stripper returns such a text unchanged (\<open>iconFormating_strip_absent\<close>).
\<close>

theorem iconjs_strip_corrupts_without_fill:
  \<open>\<not> sublist ''fill="'' ''<svg d="M1 1"/>''
   \<and> iconjs_strip ''<svg d="M1 1"/>'' = ''<svg d="M1 1"/d="M1 1"/>''
   \<and> iconFormating_strip ''<svg d="M1 1"/>'' = ''<svg d="M1 1"/>''\<close>
  by (simp add: sublist_Cons_right iconjs_strip_def iconFormating_strip_def
      py_find_def slice_to_def slice_from_def)

text \<open>
  C2.  The text \<^verbatim>\<open><path fill="#e3e3e3" d="M0 0"/>\<close> holds one fill attribute.  The
  stripper of \<^verbatim>\<open>iconjs.py\<close> looks for the double quote from \<open>startFill\<close> on, finds the
  one that opens the value, and so always removes twelve characters: here
  \<^verbatim>\<open>fill="#e3e3e\<close>, which leaves \<^verbatim>\<open>3"\<close> of the attribute behind.  The guarded stripper
  removes the attribute and nothing else (\<open>iconFormating_strip_attribute\<close>).
\<close>

theorem iconjs_strip_miscounts_value:
  \<open>iconjs_strip ''<path fill="#e3e3e3" d="M0 0"/>'' = ''<path 3" d="M0 0"/>''
   \<and> iconFormating_strip ''<path fill="#e3e3e3" d="M0 0"/>'' = ''<path  d="M0 0"/>''\<close>
  by (simp add: iconjs_strip_def iconFormating_strip_def py_find_def slice_to_def slice_from_def)

section \<open>Facts about \<open>rfind\<close>, \<open>replace\<close> and slices from the end\<close>

lemma rfind_opt_absent: "\<not> sublist sub s \<Longrightarrow> rfind_opt s sub = None"
proof (induction s)
  case Nil
  then show ?case by auto
next
  case (Cons x xs)
  then show ?case by (auto simp: sublist_Cons_right)
qed

lemma py_rfind_char_absent: "c \<notin> set s \<Longrightarrow> py_rfind s [c] = - 1"
  by (simp add: py_rfind_def rfind_opt_absent sublist_single)

lemma rfind_opt_char_last: "c \<notin> set b \<Longrightarrow> rfind_opt (a @ c # b) [c] = Some (length a)"
  by (induction a) (simp_all add: rfind_opt_absent sublist_single)

lemma py_rfind_char_last: "c \<notin> set b \<Longrightarrow> py_rfind (a @ c # b) [c] = int (length a)"
  by (simp add: py_rfind_def rfind_opt_char_last)

lemma py_replace_char: "py_replace s [a] [b] = map (\<lambda>c. if c = a then b else c) s"
  by (induction s) auto

lemma slice_to_minus_one: "slice_to s (- 1) = butlast s"
  by (simp add: slice_to_def butlast_conv_take nat_diff_distrib')

lemma slice_from_minus_one: "s \<noteq> [] \<Longrightarrow> slice_from s (- 1) = [last s]"
  by (cases s rule: rev_cases) (simp_all add: slice_from_def)

section \<open>The constant name\<close>

lemma upper_char_capital: "upper_char c = capital c"
  by (cases c) (simp add: upper_char_def capital_def char_of_def bit_Suc_0_iff)

lemma capital_not_small: "\<not> (97 \<le> (of_char (capital c) :: nat) \<and> (of_char (capital c) :: nat) \<le> 122)"
  by (cases c) (simp add: capital_def char_of_def bit_Suc_0_iff)

text \<open>
  C7.  For an ASCII file name \<open>base @ ''.svg''\<close> the constant name is \<open>base\<close>, the text up
  to the last dot, with every hyphen replaced by an underscore and every other
  character replaced by its capital, followed by \<^verbatim>\<open>_SVG\<close>; no small letter is left in
  the name.
\<close>

theorem constant_name_svg:
  assumes "is_ascii base"
  shows "constant_name (base @ ''.svg'') =
           map (\<lambda>c. if c = CHR ''-'' then CHR ''_'' else capital c) base @ ''_SVG''
       \<and> list_all (\<lambda>c. \<not> (97 \<le> (of_char c :: nat) \<and> (of_char c :: nat) \<le> 122))
            (constant_name (base @ ''.svg''))"
proof -
  have "py_rfind (base @ ''.svg'') ''.'' = int (length base)"
    using py_rfind_char_last[of "CHR ''.''" "''svg''" base] by simp
  then have "slice_to (base @ ''.svg'') (py_rfind (base @ ''.svg'') ''.'') = base"
    by (simp add: slice_to_nat)
  then have "constant_name (base @ ''.svg'') =
               map upper_char (map (\<lambda>c. if c = CHR ''-'' then CHR ''_'' else c) base) @ ''_SVG''"
    by (simp add: constant_name_def py_upper_def py_replace_char)
  moreover have "capital (CHR ''_'') = CHR ''_''"
    by (simp add: capital_def)
  ultimately have name: "constant_name (base @ ''.svg'') =
      map (\<lambda>c. if c = CHR ''-'' then CHR ''_'' else capital c) base @ ''_SVG''"
    by (simp add: upper_char_capital)
  have "list_all (\<lambda>c. \<not> (97 \<le> (of_char c :: nat) \<and> (of_char c :: nat) \<le> 122))
          (map (\<lambda>c. if c = CHR ''-'' then CHR ''_'' else capital c) base @ ''_SVG'')"
    using capital_not_small by (auto simp: list_all_iff)
  then show ?thesis
    using name by simp
qed

text \<open>The theorem at \<^verbatim>\<open>search-icon.svg\<close>, whose name is \<^verbatim>\<open>SEARCH_ICON_SVG\<close>.\<close>

theorem constant_name_svg_witness:
  "is_ascii ''search-icon''
   \<and> constant_name ''search-icon.svg'' = ''SEARCH_ICON_SVG''"
proof -
  have ascii: "is_ascii ''search-icon''"
    by (simp add: is_ascii_def)
  show ?thesis
    using ascii constant_name_svg[OF ascii]
    by (simp add: capital_def char_of_def bit_Suc_0_iff)
qed

section \<open>The new name of a marked file\<close>

text \<open>
  C5, as amended.  Let the file name be \<open>a @ ''_'' @ s @ ''dp_'' @ t\<close>, where \<open>s\<close> holds no
  underscore and the marker \<^verbatim>\<open>dp_\<close> occurs nowhere before the place shown: \<open>s @ ''dp''\<close>
  is the underscore-delimited segment that contains the first marker, and \<open>a\<close> is the
  portion of the name before it.  Let the name also be \<open>u @ ''.'' @ e\<close> with no dot in
  \<open>e\<close>, so that \<open>''.'' @ e\<close> is the text from the last dot onward.  Then the new name is
  \<open>a\<close> followed by the text from the last dot onward.
\<close>

theorem newName_marked:
  assumes shape: "file = a @ ''_'' @ s @ ''dp_'' @ t"
    and seg: "CHR ''_'' \<notin> set s"
    and first: "\<not> sublist ''dp_'' (a @ ''_'' @ s @ ''dp'')"
    and ext: "file = u @ ''.'' @ e"
    and last_dot: "CHR ''.'' \<notin> set e"
  shows "newName file = a @ ''.'' @ e"
proof -
  have "py_find ((a @ ''_'' @ s) @ ''dp_'' @ t) ''dp_'' = int (length (a @ ''_'' @ s))"
    using first by (intro py_find_first) simp_all
  then have p: "py_find file ''dp_'' = int (length (a @ ''_'' @ s))"
    using shape by simp
  have "take (length (a @ ''_'' @ s)) ((a @ ''_'' @ s) @ ''dp_'' @ t) = a @ ''_'' @ s"
    by (rule take_app) simp
  then have pre: "slice_to file (py_find file ''dp_'') = a @ ''_'' @ s"
    unfolding p slice_to_nat using shape by simp
  have r: "py_rfind (a @ ''_'' @ s) ''_'' = int (length a)"
    using py_rfind_char_last[OF seg, of a] by simp
  have "take (length a) (a @ ''_'' @ s @ ''dp_'' @ t) = a"
    by (rule take_app) simp
  then have front: "slice_to file (int (length a)) = a"
    unfolding slice_to_nat using shape by simp
  have d: "py_rfind file ''.'' = int (length u)"
    using py_rfind_char_last[OF last_dot, of u] ext by simp
  have "drop (length u) (u @ ''.'' @ e) = ''.'' @ e"
    by (rule drop_app) simp
  then have suffix_eq: "slice_from file (int (length u)) = ''.'' @ e"
    unfolding slice_from_nat using ext by simp
  show ?thesis
    unfolding newName_def pre r front d suffix_eq by simp
qed

text \<open>The theorem at \<^verbatim>\<open>home_24dp_FILL0.svg\<close>, which becomes \<^verbatim>\<open>home.svg\<close>.\<close>

theorem newName_marked_witness:
  "''home_24dp_FILL0.svg'' = ''home'' @ ''_'' @ ''24'' @ ''dp_'' @ ''FILL0.svg''
   \<and> CHR ''_'' \<notin> set ''24''
   \<and> \<not> sublist ''dp_'' (''home'' @ ''_'' @ ''24'' @ ''dp'')
   \<and> ''home_24dp_FILL0.svg'' = ''home_24dp_FILL0'' @ ''.'' @ ''svg''
   \<and> CHR ''.'' \<notin> set ''svg''
   \<and> newName ''home_24dp_FILL0.svg'' = ''home.svg''"
proof -
  have shape: "''home_24dp_FILL0.svg'' = ''home'' @ ''_'' @ ''24'' @ ''dp_'' @ ''FILL0.svg''"
    by simp
  have seg: "CHR ''_'' \<notin> set ''24''"
    by simp
  have first: "\<not> sublist ''dp_'' (''home'' @ ''_'' @ ''24'' @ ''dp'')"
    by (simp add: sublist_Cons_right)
  have ext: "''home_24dp_FILL0.svg'' = ''home_24dp_FILL0'' @ ''.'' @ ''svg''"
    by simp
  have last_dot: "CHR ''.'' \<notin> set ''svg''"
    by simp
  have "newName ''home_24dp_FILL0.svg'' = ''home'' @ ''.'' @ ''svg''"
    using shape seg first ext last_dot by (rule newName_marked)
  then show ?thesis
    using seg first by simp
qed

text \<open>
  C5 as stated, for every file name that contains the marker, fails twice.  In
  \<^verbatim>\<open>24dp_x.svg\<close> no underscore precedes the marker: the portion before the segment
  \<^verbatim>\<open>24dp\<close> is empty, so the name claimed is \<^verbatim>\<open>.svg\<close>, and the code gives
  \<^verbatim>\<open>24dp_x.sv.svg\<close>.  In \<^verbatim>\<open>a_24dp_x\<close> there is no dot: the name claimed is \<^verbatim>\<open>a\<close>, and
  the code appends the last character, giving \<^verbatim>\<open>ax\<close>.
\<close>

theorem newName_marked_counterexample:
  "sublist ''dp_'' ''24dp_x.svg''
   \<and> newName ''24dp_x.svg'' = ''24dp_x.sv.svg''
   \<and> newName ''24dp_x.svg'' \<noteq> [] @ ''.svg''
   \<and> sublist ''dp_'' ''a_24dp_x''
   \<and> newName ''a_24dp_x'' = ''ax''
   \<and> newName ''a_24dp_x'' \<noteq> ''a'' @ []"
  by (simp add: sublist_Cons_right newName_def py_find_def py_rfind_def slice_to_def slice_from_def)

text \<open>
  C9, as amended.  Let the file name be \<open>s @ ''dp_'' @ t\<close> with no underscore in \<open>s\<close>: the
  marker occurs, and no underscore stands before its first occurrence.  If the name
  has a dot, the new name is the name without its last character, followed by the
  text from the last dot onward.  If the name has no dot, the last character is put
  back and the new name is the name itself.
\<close>

theorem newName_no_underscore:
  assumes shape: "file = s @ ''dp_'' @ t"
    and seg: "CHR ''_'' \<notin> set s"
  shows "(\<forall>u e. file = u @ ''.'' @ e \<and> CHR ''.'' \<notin> set e
            \<longrightarrow> newName file = butlast file @ ''.'' @ e)
       \<and> (CHR ''.'' \<notin> set file \<longrightarrow> newName file = file)"
proof -
  have "\<not> sublist ''dp_'' (s @ ''dp'')"
  proof
    assume "sublist ''dp_'' (s @ ''dp'')"
    then have "set ''dp_'' \<subseteq> set (s @ ''dp'')"
      by (rule set_mono_sublist)
    then show False using seg by simp
  qed
  then have "py_find (s @ ''dp_'' @ t) ''dp_'' = int (length s)"
    by (intro py_find_first) simp_all
  then have p: "py_find file ''dp_'' = int (length s)"
    using shape by simp
  have pre: "slice_to file (py_find file ''dp_'') = s"
    unfolding p slice_to_nat using shape by simp
  have r: "py_rfind s ''_'' = - 1"
    using py_rfind_char_absent[OF seg] by simp
  have front: "slice_to file (- 1) = butlast file"
    by (rule slice_to_minus_one)
  have ne: "file \<noteq> []"
    using shape by simp
  have head: "newName file = butlast file @ slice_from file (py_rfind file ''.'')"
    unfolding newName_def pre r front by simp
  have with_dot: "newName file = butlast file @ ''.'' @ e"
    if "file = u @ ''.'' @ e" and "CHR ''.'' \<notin> set e" for u e
  proof -
    have d: "py_rfind file ''.'' = int (length u)"
      using py_rfind_char_last[OF that(2), of u] that(1) by simp
    have "drop (length u) (u @ ''.'' @ e) = ''.'' @ e"
      by (rule drop_app) simp
    then have "slice_from file (int (length u)) = ''.'' @ e"
      unfolding slice_from_nat using that(1) by simp
    then show ?thesis
      unfolding head d by simp
  qed
  have no_dot: "newName file = file" if "CHR ''.'' \<notin> set file"
  proof -
    have "py_rfind file ''.'' = - 1"
      using py_rfind_char_absent[OF that] by simp
    then show ?thesis
      unfolding head using slice_from_minus_one[OF ne] ne by simp
  qed
  show ?thesis
    using with_dot no_dot by blast
qed

text \<open>
  The theorem at \<^verbatim>\<open>24dp_x.svg\<close>, which has a dot, and at \<^verbatim>\<open>24dp_FILL\<close>, which has none.
\<close>

theorem newName_no_underscore_witness:
  "CHR ''_'' \<notin> set ''24''
   \<and> newName ''24dp_x.svg'' = ''24dp_x.sv'' @ ''.'' @ ''svg''
   \<and> CHR ''.'' \<notin> set ''24dp_FILL''
   \<and> newName ''24dp_FILL'' = ''24dp_FILL''"
proof -
  have seg: "CHR ''_'' \<notin> set ''24''"
    by simp
  have s1: "''24dp_x.svg'' = ''24'' @ ''dp_'' @ ''x.svg''"
    by simp
  have s2: "''24dp_FILL'' = ''24'' @ ''dp_'' @ ''FILL''"
    by simp
  have e1: "''24dp_x.svg'' = ''24dp_x'' @ ''.'' @ ''svg'' \<and> CHR ''.'' \<notin> set ''svg''"
    by simp
  have e2: "CHR ''.'' \<notin> set ''24dp_FILL''"
    by simp
  have "newName ''24dp_x.svg'' = butlast ''24dp_x.svg'' @ ''.'' @ ''svg''"
    using newName_no_underscore[OF s1 seg] e1 by blast
  moreover have "newName ''24dp_FILL'' = ''24dp_FILL''"
    using newName_no_underscore[OF s2 seg] e2 by blast
  ultimately show ?thesis
    using seg e2 by simp
qed

text \<open>
  C9 as stated fails for a name without a dot.  \<^verbatim>\<open>24dp_FILL\<close> has the marker, no
  underscore before it and no dot: the name without its last character is
  \<^verbatim>\<open>24dp_FIL\<close> and there is no text from a last dot onward, but the code computes
  \<^verbatim>\<open>file[-1:]\<close>, the last character, and the new name is the old one.
\<close>

theorem newName_no_underscore_counterexample:
  "sublist ''dp_'' ''24dp_FILL''
   \<and> CHR ''_'' \<notin> set ''24''
   \<and> CHR ''.'' \<notin> set ''24dp_FILL''
   \<and> butlast ''24dp_FILL'' = ''24dp_FIL''
   \<and> newName ''24dp_FILL'' = ''24dp_FILL''
   \<and> newName ''24dp_FILL'' \<noteq> butlast ''24dp_FILL'' @ []"
  by (simp add: sublist_Cons_right newName_def py_find_def py_rfind_def slice_to_def slice_from_def)

section \<open>The rename loop\<close>

lemma rename_step_unmarked: "\<not> sublist ''dp_'' file \<Longrightarrow> rename_step d file = Inr d"
  by (simp add: rename_step_def py_find_absent)

lemma shutil_move_keeps:
  assumes "shutil_move d src dst = Inr d'" and "f \<in> dom (regular d)" and "f \<noteq> src"
  shows "f \<in> dom (regular d')"
  using assms
  by (auto simp: shutil_move_def move_into_def split: if_splits option.splits)

lemma rename_step_keeps:
  assumes step: "rename_step d fname = Inr d'"
    and present: "f \<in> dom (regular d)"
    and unmarked: "\<not> sublist ''dp_'' f"
  shows "f \<in> dom (regular d')"
proof (cases "py_find fname ''dp_'' = - 1")
  case True
  then have "d' = d"
    using step by (simp add: rename_step_def)
  then show ?thesis
    using present by simp
next
  case False
  then have "sublist ''dp_'' fname"
    using py_find_absent by blast
  then have "f \<noteq> fname"
    using unmarked by blast
  moreover have "shutil_move d fname (newName fname) = Inr d'"
    using step False by (simp add: rename_step_def)
  ultimately show ?thesis
    using present shutil_move_keeps by blast
qed

lemma rename_loop_keeps:
  "f \<in> dom (regular d) \<Longrightarrow> \<not> sublist ''dp_'' f
     \<Longrightarrow> f \<in> dom (regular (snd (rename_loop d listing)))"
proof (induction listing arbitrary: d)
  case Nil
  then show ?case by simp
next
  case (Cons fname rest)
  show ?case
  proof (cases "rename_step d fname")
    case (Inl e)
    then show ?thesis
      using Cons.prems(1) by simp
  next
    case (Inr d1)
    then have "f \<in> dom (regular d1)"
      using Cons.prems rename_step_keeps by blast
    then have "f \<in> dom (regular (snd (rename_loop d1 rest)))"
      using Cons.IH Cons.prems(2) by blast
    then show ?thesis
      using Inr by simp
  qed
qed

text \<open>
  C8.  For a file name without the marker \<^verbatim>\<open>dp_\<close> the loop body performs no rename:
  the directory after the step is the directory before it.  And whatever names the
  loop runs over, and whether it ends or is stopped by an exception, such a name of a
  regular file is still the name of a regular file when the loop is left: no move
  takes the name away.
\<close>

theorem rename_unmarked:
  assumes "\<not> sublist ''dp_'' file"
  shows "rename_step d file = Inr d
       \<and> (file \<in> dom (regular d) \<longrightarrow> file \<in> dom (regular (snd (rename_loop d listing))))"
  using assms rename_step_unmarked rename_loop_keeps by blast

text \<open>
  The theorem in a directory with the regular files \<^verbatim>\<open>home_24dp_FILL0.svg\<close> and
  \<^verbatim>\<open>menu.svg\<close>: the first is renamed, \<^verbatim>\<open>menu.svg\<close> stays.
\<close>

theorem rename_unmarked_witness:
  "\<not> sublist ''dp_'' ''menu.svg''
   \<and> rename_step
        \<lparr>regular = [''home_24dp_FILL0.svg'' \<mapsto> ''x'', ''menu.svg'' \<mapsto> ''y''],
         subdirs = Map.empty, parent = {''outline''}\<rparr> ''menu.svg''
       = Inr \<lparr>regular = [''home_24dp_FILL0.svg'' \<mapsto> ''x'', ''menu.svg'' \<mapsto> ''y''],
              subdirs = Map.empty, parent = {''outline''}\<rparr>
   \<and> ''menu.svg'' \<in> dom (regular (snd (rename_loop
        \<lparr>regular = [''home_24dp_FILL0.svg'' \<mapsto> ''x'', ''menu.svg'' \<mapsto> ''y''],
         subdirs = Map.empty, parent = {''outline''}\<rparr>
        [''home_24dp_FILL0.svg'', ''menu.svg''])))"
proof -
  have unmarked: "\<not> sublist ''dp_'' ''menu.svg''"
    by (simp add: sublist_Cons_right)
  show ?thesis
    using unmarked
      rename_unmarked[OF unmarked,
        of "\<lparr>regular = [''home_24dp_FILL0.svg'' \<mapsto> ''x'', ''menu.svg'' \<mapsto> ''y''],
             subdirs = Map.empty, parent = {''outline''}\<rparr>"
           "[''home_24dp_FILL0.svg'', ''menu.svg'']"]
    by simp
qed

text \<open>
  The whole loop on that directory: it ends without an exception, with \<^verbatim>\<open>home.svg\<close> in
  place of \<^verbatim>\<open>home_24dp_FILL0.svg\<close>.
\<close>

lemma rename_loop_example:
  "rename_loop
     \<lparr>regular = [''home_24dp_FILL0.svg'' \<mapsto> ''x'', ''menu.svg'' \<mapsto> ''y''],
      subdirs = Map.empty, parent = {''outline''}\<rparr>
     [''home_24dp_FILL0.svg'', ''menu.svg'']
   = (None, \<lparr>regular = [''menu.svg'' \<mapsto> ''y'', ''home.svg'' \<mapsto> ''x''],
              subdirs = Map.empty, parent = {''outline''}\<rparr>)"
  by (simp add: rename_step_def shutil_move_def isdir_def newName_def py_find_def py_rfind_def
      slice_to_def slice_from_def fun_upd_twist)

text \<open>
  The loop where the new name is the directory itself: \<^verbatim>\<open>_dp_.\<close> would become \<^verbatim>\<open>.\<close>,
  \<^verbatim>\<open>shutil.move\<close> raises, and the directory is left as it was; \<^verbatim>\<open>menu.svg\<close>, which
  comes later in the list, is not looked at.
\<close>

lemma rename_loop_raises:
  "newName ''_dp_.'' = ''.''
   \<and> rename_loop
        \<lparr>regular = [''_dp_.'' \<mapsto> ''x'', ''menu.svg'' \<mapsto> ''y''],
         subdirs = Map.empty, parent = {''outline''}\<rparr>
        [''_dp_.'', ''menu.svg'']
       = (Some ShutilError,
          \<lparr>regular = [''_dp_.'' \<mapsto> ''x'', ''menu.svg'' \<mapsto> ''y''],
           subdirs = Map.empty, parent = {''outline''}\<rparr>)"
  by (simp add: rename_step_def shutil_move_def isdir_def entries_in_def newName_def py_find_def
      py_rfind_def slice_to_def slice_from_def)

text \<open>
  The loop where the new name is the parent directory: \<^verbatim>\<open>._dp_.\<close> would become \<^verbatim>\<open>..\<close>, and
  the file is moved into the parent, which has no entry of its name.
\<close>

lemma rename_loop_to_parent:
  "newName ''._dp_.'' = ''..''
   \<and> rename_loop
        \<lparr>regular = [''._dp_.'' \<mapsto> ''x'', ''menu.svg'' \<mapsto> ''y''],
         subdirs = Map.empty, parent = {''outline''}\<rparr>
        [''._dp_.'', ''menu.svg'']
       = (None,
          \<lparr>regular = [''menu.svg'' \<mapsto> ''y''],
           subdirs = Map.empty, parent = {''._dp_.'', ''outline''}\<rparr>)"
  by (simp add: rename_step_def shutil_move_def move_into_def isdir_def entries_in_def
      newName_def py_find_def py_rfind_def slice_to_def slice_from_def fun_upd_twist)

section \<open>The generated module\<close>

lemma export_list_Cons:
  "names \<noteq> [] \<Longrightarrow> export_list (name # names) = '' '' @ name @ '' ,'' @ export_list names"
  by (cases names) simp_all

lemma module_loop_icons:
  "fst (module_loop strip files (icons, iconNames)) = icons @ declarations_of strip files"
proof (induction files arbitrary: icons iconNames)
  case Nil
  then show ?case by (simp add: declarations_of_def)
next
  case (Cons entry rest)
  obtain fname icon where e: "entry = (fname, icon)"
    by (cases entry)
  show ?case
    unfolding e using Cons.IH
    by (simp add: emit_def Let_def const_declaration_def declarations_of_def)
qed

lemma module_loop_names:
  "snd (module_loop strip files (icons, iconNames)) =
     (if files = [] then iconNames
      else (if iconNames \<noteq> ''{'' then iconNames @ '','' else iconNames)
             @ export_list (names_of files))"
proof (induction files arbitrary: icons iconNames)
  case Nil
  then show ?case by simp
next
  case (Cons entry rest)
  obtain fname icon where e: "entry = (fname, icon)"
    by (cases entry)
  let ?pre = "if iconNames \<noteq> ''{'' then iconNames @ '','' else iconNames"
  let ?names1 = "?pre @ '' '' @ constant_name fname @ '' ''"
  have step: "module_loop strip (entry # rest) (icons, iconNames) =
                module_loop strip rest
                  (icons @ ''const '' @ constant_name fname @ '' = `'' @ strip icon @ ''`\<newline>'',
                   ?names1)"
    unfolding e by (simp add: emit_def Let_def)
  have "length ?names1 \<ge> 2"
    by simp
  then have ne: "?names1 \<noteq> ''{''"
    by auto
  show ?case
  proof (cases "rest = []")
    case True
    then show ?thesis
      unfolding step by (simp add: e names_of_def)
  next
    case False
    then have "names_of rest \<noteq> []"
      by (simp add: names_of_def)
    then have "export_list (names_of (entry # rest)) =
                 '' '' @ constant_name fname @ '' ,'' @ export_list (names_of rest)"
      using export_list_Cons[of "names_of rest" "constant_name fname"]
      by (simp add: e names_of_def)
    then show ?thesis
      unfolding step Cons.IH using ne False by simp
  qed
qed

lemma iconjs_generate_closed:
  "iconjs_generate listing =
     declarations_of iconjs_strip (svg_files listing)
       @ ''\<newline>export {'' @ export_list (names_of (svg_files listing)) @ ''};''"
proof -
  let ?files = "svg_files listing"
  obtain icons iconNames
    where r: "module_loop iconjs_strip ?files ('''', ''{'') = (icons, iconNames)"
    by (cases "module_loop iconjs_strip ?files ('''', ''{'')")
  have i: "icons = declarations_of iconjs_strip ?files"
    using module_loop_icons[of iconjs_strip ?files "''''" "''{''"] r by simp
  have n: "iconNames = ''{'' @ export_list (names_of ?files)"
    using module_loop_names[of iconjs_strip ?files "''''" "''{''"] r
    by (cases ?files) (simp_all add: names_of_def)
  show ?thesis
    unfolding iconjs_generate_def r i n by simp
qed

lemma declarations_of_append:
  "declarations_of strip (xs @ ys) = declarations_of strip xs @ declarations_of strip ys"
  by (simp add: declarations_of_def)

lemma declarations_of_Cons:
  "declarations_of strip ((file, icon) # ys) =
     const_declaration (constant_name file) (strip icon) @ declarations_of strip ys"
  by (simp add: declarations_of_def)

lemma names_of_append: "names_of (xs @ ys) = names_of xs @ names_of ys"
  by (simp add: names_of_def)

lemma names_of_Cons: "names_of ((file, icon) # ys) = constant_name file # names_of ys"
  by (simp add: names_of_def)

subsection \<open>The entries of the export list\<close>








subsection \<open>Distinct names\<close>




subsection \<open>Colliding names\<close>

text \<open>
  C4, as amended.  When two of the enumerated \<^verbatim>\<open>.svg\<close> files have the same constant
  name, the text generated by \<^verbatim>\<open>iconjs.py\<close> holds a declaration of that name for each
  of the two files, the earlier file's first, and the export list holds the name at
  both places.  Nothing is overwritten.
\<close>

theorem generate_colliding_names:
  assumes files: "svg_files listing = xs @ (f1, c1) # ys @ (f2, c2) # zs"
    and same: "constant_name f2 = constant_name f1"
  shows "iconjs_generate listing =
           declarations_of iconjs_strip xs
             @ const_declaration (constant_name f1) (iconjs_strip c1)
             @ declarations_of iconjs_strip ys
             @ const_declaration (constant_name f1) (iconjs_strip c2)
             @ declarations_of iconjs_strip zs
             @ ''\<newline>export {''
             @ export_list (names_of xs @ constant_name f1 # names_of ys
                              @ constant_name f1 # names_of zs)
             @ ''};''"
  unfolding iconjs_generate_closed files
  by (simp add: declarations_of_append declarations_of_Cons names_of_append names_of_Cons same)

text \<open>
  The theorem at the two files \<^verbatim>\<open>a-b.svg\<close> and \<^verbatim>\<open>a_b.svg\<close>, whose constant name is
  \<^verbatim>\<open>A_B_SVG\<close>.
\<close>

theorem generate_colliding_names_witness:
  \<open>svg_files [(''a-b.svg'', ''<a fill="black"/>''), (''a_b.svg'', ''<b fill="white"/>'')]
     = [] @ (''a-b.svg'', ''<a fill="black"/>'') # [] @ (''a_b.svg'', ''<b fill="white"/>'') # []
   \<and> constant_name ''a_b.svg'' = constant_name ''a-b.svg''
   \<and> iconjs_generate [(''a-b.svg'', ''<a fill="black"/>''), (''a_b.svg'', ''<b fill="white"/>'')]
       = ''const A_B_SVG = `<a />`\<newline>const A_B_SVG = `<b />`\<newline>''
         @ ''\<newline>export { A_B_SVG , A_B_SVG };''\<close>
proof -
  have files: \<open>svg_files [(''a-b.svg'', ''<a fill="black"/>''), (''a_b.svg'', ''<b fill="white"/>'')]
                 = [] @ (''a-b.svg'', ''<a fill="black"/>'') # []
                      @ (''a_b.svg'', ''<b fill="white"/>'') # []\<close>
    by (simp add: svg_files_def py_endswith_def suffix_def)
  have n1: "constant_name ''a-b.svg'' = ''A_B_SVG''"
    by (simp add: constant_name_def py_upper_def upper_char_def py_rfind_def slice_to_def)
  have n2: "constant_name ''a_b.svg'' = ''A_B_SVG''"
    by (simp add: constant_name_def py_upper_def upper_char_def py_rfind_def slice_to_def)
  have same: "constant_name ''a_b.svg'' = constant_name ''a-b.svg''"
    unfolding n1 n2 by simp
  have strips: \<open>iconjs_strip ''<a fill="black"/>'' = ''<a />''\<close>
    \<open>iconjs_strip ''<b fill="white"/>'' = ''<b />''\<close>
    by (simp_all add: iconjs_strip_def py_find_def slice_to_def slice_from_def)
  show ?thesis
    using files same generate_colliding_names[OF files same]
    unfolding n1 n2 strips
    by (simp add: declarations_of_def names_of_def const_declaration_def)
qed

text \<open>
  C4 as stated says that only one declaration of the colliding name appears.  For
  \<^verbatim>\<open>a-b.svg\<close> and \<^verbatim>\<open>a_b.svg\<close> the generated text has two lines that declare \<^verbatim>\<open>A_B_SVG\<close>,
  the first with the text of the earlier file.
\<close>

theorem generate_colliding_names_counterexample:
  \<open>constant_name ''a-b.svg'' = constant_name ''a_b.svg''
   \<and> lines_of (iconjs_generate
        [(''a-b.svg'', ''<a fill="black"/>''), (''a_b.svg'', ''<b fill="white"/>'')])
       = [''const A_B_SVG = `<a />`'', ''const A_B_SVG = `<b />`'', '''',
          ''export { A_B_SVG , A_B_SVG };'']
   \<and> length (filter (prefix ''const A_B_SVG = '')
        (lines_of (iconjs_generate
          [(''a-b.svg'', ''<a fill="black"/>''), (''a_b.svg'', ''<b fill="white"/>'')]))) = 2\<close>
  by (simp add: iconjs_generate_def svg_files_def py_endswith_def suffix_def emit_def
      constant_name_def py_upper_def upper_char_def iconjs_strip_def py_find_def py_rfind_def
      slice_to_def slice_from_def lines_of_def)

subsection \<open>The example of the two files\<close>

text \<open>
  C3, as amended.  For the two files \<^verbatim>\<open>home.svg\<close> and \<^verbatim>\<open>search-icon.svg\<close>, enumerated in
  that order, whatever their texts, the text generated by \<^verbatim>\<open>iconjs.py\<close> is the
  declaration of \<^verbatim>\<open>HOME_SVG\<close> and the declaration of \<^verbatim>\<open>SEARCH_ICON_SVG\<close>, each holding
  between back quotes what the fill stripper returns for the text of its file, then an
  empty line, then the export statement in which every name has a space on both
  sides: \<^verbatim>\<open>export { HOME_SVG , SEARCH_ICON_SVG };\<close>.
\<close>

theorem iconjs_generate_example:
  "iconjs_generate [(''home.svg'', home), (''search-icon.svg'', search_icon)]
   = ''const HOME_SVG = `'' @ iconjs_strip home @ ''`\<newline>''
     @ ''const SEARCH_ICON_SVG = `'' @ iconjs_strip search_icon @ ''`\<newline>''
     @ ''\<newline>''
     @ ''export { HOME_SVG , SEARCH_ICON_SVG };''"
  by (simp add: iconjs_generate_def svg_files_def py_endswith_def suffix_def emit_def
      constant_name_def py_upper_def upper_char_def py_rfind_def slice_to_def)

text \<open>
  C3 as stated names the line \<^verbatim>\<open>export { HOME_SVG, SEARCH_ICON_SVG};\<close>.  It is not a
  line of the text generated for the two files of the example: the export line is
  \<^verbatim>\<open>export { HOME_SVG , SEARCH_ICON_SVG };\<close>.
\<close>

theorem iconjs_generate_example_counterexample:
  \<open>''export { HOME_SVG, SEARCH_ICON_SVG};'' \<notin> set (lines_of (iconjs_generate
       [(''home.svg'', ''<svg fill="#000" d="M0 0"/>''), (''search-icon.svg'', ''<svg d="M1 1"/>'')]))
   \<and> last (lines_of (iconjs_generate
       [(''home.svg'', ''<svg fill="#000" d="M0 0"/>''), (''search-icon.svg'', ''<svg d="M1 1"/>'')]))
       = ''export { HOME_SVG , SEARCH_ICON_SVG };''\<close>
  by (simp add: iconjs_generate_def svg_files_def py_endswith_def suffix_def emit_def
      constant_name_def py_upper_def upper_char_def iconjs_strip_def py_find_def py_rfind_def
      slice_to_def slice_from_def lines_of_def)

text \<open>
  What the two fill strippers return for the texts of the example.  The guarded
  stripper gives the two texts that the declarations of C3 hold; the stripper of
  \<^verbatim>\<open>iconjs.py\<close> takes the space after the attribute of \<^verbatim>\<open>home.svg\<close> as well, and damages
  the text of \<^verbatim>\<open>search-icon.svg\<close>, which has no attribute.
\<close>

lemma strippers_on_example:
  \<open>iconFormating_strip ''<svg fill="#000" d="M0 0"/>'' = ''<svg  d="M0 0"/>''
   \<and> iconFormating_strip ''<svg d="M1 1"/>'' = ''<svg d="M1 1"/>''
   \<and> iconjs_strip ''<svg fill="#000" d="M0 0"/>'' = ''<svg d="M0 0"/>''
   \<and> iconjs_strip ''<svg d="M1 1"/>'' = ''<svg d="M1 1"/d="M1 1"/>''\<close>
  by (simp add: iconFormating_strip_def iconjs_strip_def py_find_def slice_to_def slice_from_def)

end
